theory Spec2Isabelle
  imports Main "HOL-Library.Sublist" "HOL-Library.Multiset" "HOL-Library.Char_ord"
    "HOL-Library.List_Lexorder" "HOL-Library.Product_Lexorder"
begin

section \<open>Record store and search index\<close>

text \<open>
  The store and the search of the back end (\<open>crawler.py\<close>) are not among the source
  files at hand; App.js only calls them over HTTP. This section models them from the
  specification (sections 3, 4.1 and 4.2).
\<close>

text \<open>
  Modelled from the spec: the JobRecord of section 3 (\<open>crawler.py\<close> is missing). The
  optional fields are options, the keywords an ordered sequence, the time of ingestion a
  number.
\<close>

record job_record =
  req_id :: string
  title :: string
  location :: string
  pay_range :: "string option"
  tech_keywords :: "string list"
  description :: "string option"
  ingested_at :: nat

text \<open>
  Modelled from the spec: the error taxonomy of section 7 (\<open>crawler.py\<close> is missing).
\<close>

datatype store_error = ValidationError | NotFound | StoreUnavailable

text \<open>
  Modelled from the spec: the table of the Record Store (\<open>crawler.py\<close> is missing), as
  the list of its records in insertion order.
\<close>

type_synonym store = "job_record list"

text \<open>
  Modelled from the spec: \<open>upsert(record)\<close> of section 4.1 (\<open>crawler.py\<close> is missing).
  It fails with \<open>ValidationError\<close> if \<open>req_id\<close> or \<open>title\<close> is missing or empty, replaces
  the record with the same \<open>req_id\<close> if there is one, and inserts otherwise.
\<close>

definition upsert :: "job_record \<Rightarrow> store \<Rightarrow> store_error + store" where
  "upsert r st =
     (if job_record.req_id r = [] \<or> job_record.title r = [] then Inl ValidationError
      else if list_ex (\<lambda>x. job_record.req_id x = job_record.req_id r) st
      then Inr (map (\<lambda>x. if job_record.req_id x = job_record.req_id r then r else x) st)
      else Inr (st @ [r]))"

text \<open>
  Modelled from the spec: \<open>get(req_id)\<close> of section 4.1 (\<open>crawler.py\<close> is missing): the
  record, or \<open>NotFound\<close>.
\<close>

definition get :: "string \<Rightarrow> store \<Rightarrow> store_error + job_record" where
  "get rid st =
     (case find (\<lambda>x. job_record.req_id x = rid) st of
        Some r \<Rightarrow> Inr r
      | None \<Rightarrow> Inl NotFound)"

text \<open>
  Modelled from the spec: \<open>all()\<close> of section 4.1 (\<open>crawler.py\<close> is missing): all records
  in insertion order.
\<close>

definition all_records :: "store \<Rightarrow> job_record list" where
  "all_records st = st"

text \<open>
  Modelled from the spec: \<open>count()\<close> of section 4.1 (\<open>crawler.py\<close> is missing): the total
  record count.
\<close>

definition count_records :: "store \<Rightarrow> nat" where
  "count_records st = length (all_records st)"

text \<open>
  Modelled from the spec: the case-insensitive comparison of section 4.2 (\<open>crawler.py\<close>
  is missing), by lower-casing the letters A to Z.
\<close>

definition lower_char :: "char \<Rightarrow> char" where
  "lower_char c =
     (if CHR ''A'' \<le> c \<and> c \<le> CHR ''Z'' then char_of (of_char c + (32::nat)) else c)"

definition lower :: "string \<Rightarrow> string" where
  "lower s = map lower_char s"

text \<open>
  Modelled from the spec: trimming the query and splitting it into its space-separated
  terms, section 4.2 (\<open>crawler.py\<close> is missing).
\<close>

definition trim :: "string \<Rightarrow> string" where
  "trim s = rev (dropWhile (\<lambda>c. c = CHR '' '') (rev (dropWhile (\<lambda>c. c = CHR '' '') s)))"

fun split_on :: "char \<Rightarrow> string \<Rightarrow> string \<Rightarrow> string list" where
  "split_on sep acc [] = [rev acc]"
| "split_on sep acc (c # cs) =
     (if c = sep then rev acc # split_on sep [] cs else split_on sep (c # acc) cs)"

definition terms :: "string \<Rightarrow> string list" where
  "terms q = filter (\<lambda>w. w \<noteq> []) (split_on (CHR '' '') [] (trim q))"

text \<open>
  Modelled from the spec: the searchable text of a record, the concatenation of
  \<open>title\<close>, \<open>location\<close>, \<open>tech_keywords\<close> (in their comma-separated surface form) and
  \<open>description\<close>, section 4.2 (\<open>crawler.py\<close> is missing).
\<close>

fun comma_separated :: "string list \<Rightarrow> string" where
  "comma_separated [] = []"
| "comma_separated [k] = k"
| "comma_separated (k # ks) = k @ '','' @ comma_separated ks"

definition search_blob :: "job_record \<Rightarrow> string" where
  "search_blob r =
     job_record.title r @ job_record.location r @
     comma_separated (job_record.tech_keywords r) @
     (case job_record.description r of Some d \<Rightarrow> d | None \<Rightarrow> [])"

text \<open>
  Modelled from the spec: the matching rule of section 4.2 (\<open>crawler.py\<close> is missing). A
  term matches a record if it is a substring of the text of the record or equal to one
  of its keywords, case-insensitively; a query matches if every term of it does; a
  record matches on the title if every term is a substring of its title.
\<close>

definition term_matches :: "string \<Rightarrow> job_record \<Rightarrow> bool" where
  "term_matches t r =
     (sublist (lower t) (lower (search_blob r)) \<or>
      lower t \<in> set (map lower (job_record.tech_keywords r)))"

definition matches :: "string \<Rightarrow> job_record \<Rightarrow> bool" where
  "matches q r = list_all (\<lambda>t. term_matches t r) (terms q)"

definition title_match :: "string \<Rightarrow> job_record \<Rightarrow> bool" where
  "title_match q r = list_all (\<lambda>t. sublist (lower t) (lower (job_record.title r))) (terms q)"

text \<open>
  Modelled from the spec: \<open>search(query)\<close> of section 4.2 (\<open>crawler.py\<close> is missing). The
  empty query returns all records, most recently ingested first, ties broken by
  \<open>req_id\<close> ascending; another query returns the matching records, those matching on
  the title first and, within equal rank, most recently ingested first.
\<close>

definition search :: "string \<Rightarrow> store \<Rightarrow> job_record list" where
  "search q st =
     (if trim q = []
      then sort_key (\<lambda>r. (- int (ingested_at r), job_record.req_id r)) (all_records st)
      else sort_key (\<lambda>r. ((if title_match q r then 0 else 1 :: nat), - int (ingested_at r)))
             (filter (matches q) (all_records st)))"

section \<open>The job search front end (App.js)\<close>

subsection \<open>JavaScript values and strings\<close>

text \<open>
  A job object reaches the front end as JSON from the back end, so a field of it holds a
  string, \<open>null\<close>, or is missing (\<open>undefined\<close>). A template literal turns the value into
  text: \<open>undefined\<close> and \<open>null\<close> are printed by name.
\<close>

datatype jsval = JUndefined | JNull | JString string

fun toString :: "jsval \<Rightarrow> string" where
  "toString JUndefined = ''undefined''"
| "toString JNull = ''null''"
| "toString (JString s) = s"

text \<open>
  \<open>s.substring(a, b)\<close> on non-negative integers: the part of \<open>s\<close> between the smaller
  and the larger index, both clipped to the length of \<open>s\<close>.
\<close>

definition substring :: "nat \<Rightarrow> nat \<Rightarrow> string \<Rightarrow> string" where
  "substring a b s = take (max a b - min a b) (drop (min a b) s)"

text \<open>
  \<open>v?.substring(a, b)\<close>: the optional chain gives \<open>undefined\<close> when \<open>v\<close> is \<open>null\<close> or
  \<open>undefined\<close>.
\<close>

fun optional_substring :: "nat \<Rightarrow> nat \<Rightarrow> jsval \<Rightarrow> jsval" where
  "optional_substring a b (JString s) = JString (substring a b s)"
| "optional_substring a b JNull = JUndefined"
| "optional_substring a b JUndefined = JUndefined"


subsection \<open>The state of the App component\<close>

record job =
  req_id :: jsval
  title :: jsval
  location :: jsval
  pay_range :: jsval
  tech_keywords :: jsval
  description :: jsval

record profile =
  name :: string
  email :: string
  phone :: string
  location :: string
  linkedin :: string
  github :: string

text \<open>
  What a rejected request carries: the HTTP status of the answer, or no answer at all.
\<close>

datatype axios_error = HttpStatus nat | NetworkError

text \<open>
  The fields are the \<open>useState\<close> cells of \<open>App\<close>, in the order of the source; \<open>console\<close>
  collects what \<open>console.error\<close> is given (a label and the error), which is no part of
  what the page shows.
\<close>

record app_state =
  jobs :: "job list"
  loading :: bool
  query :: string
  selectedJob :: "job option"
  hoveredJob :: jsval
  generatedPrompt :: string
  showPromptSection :: bool
  copied :: bool
  profile :: profile
  console :: "(string \<times> axios_error) list"

subsection \<open>Local prompt generation\<close>

text \<open>
  The constant \<open>jobInfo\<close> of \<open>generateLocalPrompt\<close>: the target job block when a job is
  selected, the empty string otherwise. The literal starts with a line break and ends
  with one; the three dots follow the interpolated description on every path.
\<close>

definition jobInfo :: "job option \<Rightarrow> string" where
  "jobInfo sel =
     (case sel of
        Some j \<Rightarrow>
          ''\<newline>'' @
          ''TARGET JOB:\<newline>'' @
          ''- Title: '' @ toString (job.title j) @ ''\<newline>'' @
          ''- Requisition ID: '' @ toString (job.req_id j) @ ''\<newline>'' @
          ''- Location: '' @ toString (job.location j) @ ''\<newline>'' @
          ''- Pay Range: '' @ toString (job.pay_range j) @ ''\<newline>'' @
          ''- Technologies: '' @ toString (job.tech_keywords j) @ ''\<newline>'' @
          ''- Description: '' @ toString (optional_substring 0 500 (job.description j)) @ ''...\<newline>''
      | None \<Rightarrow> [])"

text \<open>
  Text as lines: \<open>unlines\<close> ends every line with a line break, \<open>join_lines\<close> puts a
  line break between two lines, as joining them does.
\<close>

definition unlines :: "string list \<Rightarrow> string" where
  "unlines ls = concat (map (\<lambda>l. l @ ''\<newline>'') ls)"

fun join_lines :: "string list \<Rightarrow> string" where
  "join_lines [] = []"
| "join_lines [l] = l"
| "join_lines (l # ls) = l @ ''\<newline>'' @ join_lines ls"

text \<open>
  The static text of the returned template literal after the interpolated \<open>jobInfo\<close>,
  line by line as in the source: the employment history up to the empty line that ends
  it (every line ended by a line break), and the resume requirements, whose last line
  ends the literal without a line break.
\<close>

definition employmentHistoryLines :: "string list" where
  "employmentHistoryLines =
    [''EMPLOYMENT HISTORY (verified from W2 records):'',
     '''',
     ''**Fisher Asset Management LLC** | Camas, WA (Remote)'',
     ''Senior Software Engineer (2020 - 2021)'',
     ''- Compensation: $29K - $154K annually'',
     ''- Financial technology solutions and asset management platform development'',
     ''- Full-stack development with modern technologies'',
     '''',
     ''**Jabil Inc** | St. Petersburg, FL / Portland, OR'',
     ''Software Engineer (2016 - 2020)  '',
     ''- Compensation: $70K - $113K annually'',
     ''- Electronics manufacturing systems development'',
     ''- Enterprise software engineering and process automation'',
     ''- Led technical initiatives and mentored junior developers'',
     '''',
     ''**TekSystems, Inc.** | Saint Petersburg, FL'',
     ''Contract Software Engineer (2014 - 2016)'',
     ''- Compensation: $85K - $94K annually'',
     ''- Enterprise consulting engagements'',
     ''- Multiple client projects across various industries'',
     '''',
     ''**ExecuSource LLC** | Portland, OR'',
     ''Contract Engineer (2023)'',
     ''- Technical consulting engagements'',
     '''']"

definition employmentHistory :: string where
  "employmentHistory = unlines employmentHistoryLines"

definition resumeRequirementsLines :: "string list" where
  "resumeRequirementsLines =
    [''RESUME REQUIREMENTS:'',
     '''',
     ''1. **LaTeX Design:**'',
     ''   - Create a unique, modern two-column or sidebar layout'',
     ''   - Use TikZ for subtle visual elements'',
     ''   - Apply color accents (Schwab blue #0070CD if targeting Schwab)'',
     ''   - Ensure ATS-compatibility (parseable text)'',
     ''   - Maximum one page'',
     '''',
     ''2. **Content:**'',
     ''   - Professional summary highlighting 10+ years experience'',
     ''   - Skills section matching target job requirements'',
     ''   - Quantifiable achievements where possible'',
     ''   - Education and certifications section'',
     '''',
     ''3. **Technical Requirements:**'',
     ''   - Complete, compilable LaTeX document'',
     ''   - Use standard TexLive packages only'',
     ''   - Document must compile with pdflatex'',
     '''',
     ''After generating the LaTeX code:'',
     ''1. Save as resume.tex'',
     ''2. Run: pdflatex resume.tex'',
     ''3. Fix any errors and recompile until successful'',
     '''',
     ''Generate the complete LaTeX source code now.'']"

definition resumeRequirements :: string where
  "resumeRequirements = join_lines resumeRequirementsLines"

text \<open>
  \<open>generateLocalPrompt\<close> reads \<open>selectedJob\<close> and \<open>profile\<close> from the component and
  returns the template literal; \<open>profile.github || 'N/A'\<close> prints \<open>N/A\<close> for the empty
  string.
\<close>

definition generateLocalPrompt :: "app_state \<Rightarrow> string" where
  "generateLocalPrompt s =
     ''You are an expert resume writer and LaTeX document designer. Create a professional, ATS-optimized resume.\<newline>'' @
     ''\<newline>'' @
     ''CANDIDATE PROFILE:\<newline>'' @
     ''- Name: '' @ name (profile s) @ ''\<newline>'' @
     ''- Location: '' @ profile.location (profile s) @ ''\<newline>'' @
     ''- Email: '' @ email (profile s) @ ''\<newline>'' @
     ''- Phone: '' @ phone (profile s) @ ''\<newline>'' @
     ''- LinkedIn: '' @ linkedin (profile s) @ ''\<newline>'' @
     ''- GitHub: '' @ (if github (profile s) = [] then ''N/A'' else github (profile s)) @ ''\<newline>'' @
     jobInfo (selectedJob s) @ ''\<newline>'' @
     employmentHistory @
     resumeRequirements"

subsection \<open>Asking the back end for a prompt\<close>

text \<open>
  The body of the POST request to \<open>/generate-prompt\<close>; \<open>selectedJob?.req_id\<close> is
  \<open>undefined\<close> when no job is selected.
\<close>

record prompt_request =
  job_id :: jsval
  request_profile :: profile

definition request_body :: "app_state \<Rightarrow> prompt_request" where
  "request_body s =
     \<lparr>job_id = (case selectedJob s of Some j \<Rightarrow> job.req_id j | None \<Rightarrow> JUndefined),
      request_profile = profile s\<rparr>"

text \<open>
  \<open>generatePrompt\<close> awaits the request, here the function \<open>post\<close> from the body to the
  rejection or to the prompt of the answer. Both branches end by showing the prompt
  section; the \<open>catch\<close> branch logs the error and takes the local prompt.
\<close>

definition generatePrompt :: "(prompt_request \<Rightarrow> axios_error + string) \<Rightarrow> app_state \<Rightarrow> app_state" where
  "generatePrompt post s =
     (case post (request_body s) of
        Inr prompt \<Rightarrow> s\<lparr>generatedPrompt := prompt, showPromptSection := True\<rparr>
      | Inl error \<Rightarrow>
          (let localPrompt = generateLocalPrompt s
           in s\<lparr>console := console s @ [(''Error generating prompt:'', error)],
                generatedPrompt := localPrompt,
                showPromptSection := True\<rparr>))"

subsection \<open>The command line\<close>



section \<open>Query service\<close>

text \<open>
  Modelled from the spec: \<open>getJob(req_id)\<close> of the Query Service, section 4.5
  (\<open>crawler.py\<close> is missing): the record of the store, or \<open>NotFound\<close>.
\<close>

definition getJob :: "string \<Rightarrow> store \<Rightarrow> store_error + job_record" where
  "getJob rid st = get rid st"

text \<open>
  Modelled from the spec: \<open>generatePrompt(req_id?, profile)\<close> of the Query Service,
  section 4.5 (\<open>crawler.py\<close> is missing). It resolves \<open>req_id\<close> via \<open>getJob\<close> when one is
  given, fails with the typed error of \<open>getJob\<close> if the id is unknown, and delegates to
  the Prompt Assembler, here the parameter \<open>assemble\<close>. The name carries a suffix, since
  \<open>generatePrompt\<close> is the handler of the front end.
\<close>

definition generatePrompt_service ::
  "(profile \<Rightarrow> job_record option \<Rightarrow> string) \<Rightarrow> store \<Rightarrow> string option \<Rightarrow> profile \<Rightarrow>
     store_error + string" where
  "generatePrompt_service assemble st rid p =
     (case rid of
        None \<Rightarrow> Inr (assemble p None)
      | Some i \<Rightarrow>
          (case getJob i st of
             Inl e \<Rightarrow> Inl e
           | Inr r \<Rightarrow> Inr (assemble p (Some r))))"

section \<open>Notions used to state the properties\<close>

text \<open>The lines of a text: what lies between its line breaks.\<close>

definition split_lines :: "string \<Rightarrow> string list" where
  "split_lines s = split_on (CHR ''\<newline>'') [] s"

text \<open>A profile whose six fields hold no line break, as the text inputs of the form give.\<close>

definition single_line_profile :: "profile \<Rightarrow> bool" where
  "single_line_profile p =
     (CHR ''\<newline>'' \<notin> set (name p) \<and> CHR ''\<newline>'' \<notin> set (profile.location p) \<and>
      CHR ''\<newline>'' \<notin> set (email p) \<and> CHR ''\<newline>'' \<notin> set (phone p) \<and>
      CHR ''\<newline>'' \<notin> set (linkedin p) \<and> CHR ''\<newline>'' \<notin> set (github p))"

text \<open>
  The header and the labels that only the target job block prints (\<open>- Location:\<close> is
  also a label of the profile block); a job line is a line that starts with one of them.
\<close>

definition job_labels :: "string list" where
  "job_labels =
     [''TARGET JOB:'', ''- Title: '', ''- Requisition ID: '', ''- Pay Range: '',
      ''- Technologies: '', ''- Description: '']"

definition is_job_line :: "string \<Rightarrow> bool" where
  "is_job_line l = list_ex (\<lambda>lab. prefix lab l) job_labels"

text \<open>
  The truncation rule in the words of the specification: three dots only after a
  description longer than 500 characters.
\<close>

definition truncate_spec :: "string \<Rightarrow> string" where
  "truncate_spec d = (if 500 < length d then take 500 d @ ''...'' else d)"

text \<open>
  The parts of the assembled prompt, in the order the specification gives them: the
  profile block under the opening sentence, the target job block, the fixed text.
\<close>

definition opening_sentence :: string where
  "opening_sentence =
     ''You are an expert resume writer and LaTeX document designer. Create a professional, ATS-optimized resume.\<newline>'' @
     ''\<newline>''"

definition profile_block :: "profile \<Rightarrow> string" where
  "profile_block p =
     unlines
       [''CANDIDATE PROFILE:'',
        ''- Name: '' @ name p,
        ''- Location: '' @ profile.location p,
        ''- Email: '' @ email p,
        ''- Phone: '' @ phone p,
        ''- LinkedIn: '' @ linkedin p,
        ''- GitHub: '' @ (if github p = [] then ''N/A'' else github p)]"

definition target_job_block :: "job \<Rightarrow> string" where
  "target_job_block j =
     unlines
       ['''',
        ''TARGET JOB:'',
        ''- Title: '' @ toString (job.title j),
        ''- Requisition ID: '' @ toString (job.req_id j),
        ''- Location: '' @ toString (job.location j),
        ''- Pay Range: '' @ toString (job.pay_range j),
        ''- Technologies: '' @ toString (job.tech_keywords j),
        ''- Description: '' @ toString (optional_substring 0 500 (job.description j)) @ ''...'']"

definition boilerplate :: string where
  "boilerplate = ''\<newline>'' @ employmentHistory @ resumeRequirements"

text \<open>
  Escaping in one pass: a backslash before every backslash and every double quote, and
  backslash n for every line break.
\<close>

definition escape_char :: "char \<Rightarrow> string" where
  "escape_char c =
     (if c = CHR 0x5C then [CHR 0x5C, CHR 0x5C]
      else if c = CHR 0x22 then [CHR 0x5C, CHR 0x22]
      else if c = CHR ''\<newline>'' then [CHR 0x5C, CHR ''n'']
      else [c])"

definition escape :: "string \<Rightarrow> string" where
  "escape p = concat (map escape_char p)"

text \<open>
  The order of the answer to the empty query: the more recently ingested record first,
  and of two records ingested at the same time the one with the smaller \<open>req_id\<close>.
\<close>

definition recent_first :: "job_record \<Rightarrow> job_record \<Rightarrow> bool" where
  "recent_first a b =
     (ingested_at b < ingested_at a \<or>
      (ingested_at a = ingested_at b \<and> job_record.req_id a \<le> job_record.req_id b))"

text \<open>A record that \<open>upsert\<close> accepts.\<close>

definition valid_record :: "job_record \<Rightarrow> bool" where
  "valid_record r = (job_record.req_id r \<noteq> [] \<and> job_record.title r \<noteq> [])"

section \<open>Example inputs\<close>

definition example_profile :: profile where
  "example_profile =
     \<lparr>name = ''Scott D. Weeden'', email = '''', phone = ''(555) 123-4567'',
      location = ''Portland, OR'', linkedin = ''linkedin.com/in/scottweeden'', github = ''''\<rparr>"

definition example_job :: job where
  "example_job =
     \<lparr>job.req_id = JString ''2025-0001'', job.title = JString ''Software Engineer Lead'',
      job.location = JString ''Austin, TX'', job.pay_range = JNull,
      job.tech_keywords = JString ''java,aws'', job.description = JString ''abc''\<rparr>"

definition example_state :: app_state where
  "example_state =
     \<lparr>jobs = [], loading = False, query = '''', selectedJob = Some example_job,
      hoveredJob = JNull, generatedPrompt = '''', showPromptSection = False, copied = False,
      profile = example_profile, console = []\<rparr>"

definition no_job_state :: app_state where
  "no_job_state = example_state\<lparr>selectedJob := None\<rparr>"

definition example_record :: "string \<Rightarrow> string \<Rightarrow> nat \<Rightarrow> job_record" where
  "example_record rid t ts =
     \<lparr>job_record.req_id = rid, job_record.title = t, job_record.location = ''Austin, TX'',
      job_record.pay_range = None, job_record.tech_keywords = [''java'', ''aws''],
      job_record.description = None, ingested_at = ts\<rparr>"

text \<open>
  A back end that answers every request with status 404, as for a \<open>req_id\<close> it does not
  know.
\<close>

definition not_found_backend :: "prompt_request \<Rightarrow> axios_error + string" where
  "not_found_backend req = Inl (HttpStatus 404)"




definition example_assemble :: "profile \<Rightarrow> job_record option \<Rightarrow> string" where
  "example_assemble p j =
     ''Name: '' @ name p @
     (case j of None \<Rightarrow> [] | Some r \<Rightarrow> '' Title: '' @ job_record.title r)"

section \<open>Properties of the record store and the search\<close>

lemma find_replaced:
  "list_ex (\<lambda>x. job_record.req_id x = job_record.req_id r) st \<Longrightarrow>
   find (\<lambda>x. job_record.req_id x = job_record.req_id r)
     (map (\<lambda>x. if job_record.req_id x = job_record.req_id r then r else x) st) = Some r"
  by (induction st) auto

lemma upsert_valid:
  "valid_record r \<Longrightarrow>
   upsert r st =
     Inr (if list_ex (\<lambda>x. job_record.req_id x = job_record.req_id r) st
          then map (\<lambda>x. if job_record.req_id x = job_record.req_id r then r else x) st
          else st @ [r])"
  by (simp add: upsert_def valid_record_def)

lemma upsert_has_record:
  "upsert r st = Inr st' \<Longrightarrow> list_ex (\<lambda>x. job_record.req_id x = job_record.req_id r) st'"
  by (auto simp: upsert_def list_ex_iff split: if_splits)

lemma upsert_present:
  "valid_record r \<Longrightarrow> list_ex (\<lambda>x. job_record.req_id x = job_record.req_id r) st \<Longrightarrow>
   upsert r st = Inr (map (\<lambda>x. if job_record.req_id x = job_record.req_id r then r else x) st)"
  by (simp add: upsert_valid)

text \<open>
  Claim C7. For all valid job records \<open>r1\<close> and \<open>r2\<close> that differ but carry the same
  \<open>req_id\<close>, and for every store: \<open>upsert r1\<close> succeeds, \<open>upsert r2\<close> on the result
  succeeds, \<open>get\<close> of the \<open>req_id\<close> then returns \<open>r2\<close> itself (the whole record, nothing
  of \<open>r1\<close> kept), and the second \<open>upsert\<close> leaves the count as it was.
\<close>

theorem upsert_replaces:
  assumes "valid_record r1" and "valid_record r2"
    and "job_record.req_id r1 = job_record.req_id r2" and "r1 \<noteq> r2"
  shows "\<exists>st1 st2. upsert r1 st = Inr st1 \<and> upsert r2 st1 = Inr st2 \<and>
           get (job_record.req_id r1) st2 = Inr r2 \<and>
           count_records st2 = count_records st1"
proof -
  obtain st1 where s1: "upsert r1 st = Inr st1"
    using assms(1) by (simp add: upsert_valid)
  have ex: "list_ex (\<lambda>x. job_record.req_id x = job_record.req_id r2) st1"
    using upsert_has_record [OF s1] assms(3) by simp
  define st2 where
    "st2 = map (\<lambda>x. if job_record.req_id x = job_record.req_id r2 then r2 else x) st1"
  have s2: "upsert r2 st1 = Inr st2"
    using upsert_present [OF assms(2) ex] by (simp add: st2_def)
  have "find (\<lambda>x. job_record.req_id x = job_record.req_id r2) st2 = Some r2"
    unfolding st2_def by (rule find_replaced [OF ex])
  then have g: "get (job_record.req_id r1) st2 = Inr r2"
    by (simp add: get_def assms(3))
  have c: "count_records st2 = count_records st1"
    by (simp add: count_records_def all_records_def st2_def)
  from s1 s2 g c show ?thesis by blast
qed

theorem upsert_replaces_witness:
  "\<exists>st1 st2.
      upsert (example_record ''2025-0003'' ''Software Engineer'' 1)
        [example_record ''2025-0001'' ''Lead'' 0] = Inr st1 \<and>
      upsert (example_record ''2025-0003'' ''Staff Engineer'' 2) st1 = Inr st2 \<and>
      get ''2025-0003'' st2 = Inr (example_record ''2025-0003'' ''Staff Engineer'' 2) \<and>
      count_records st2 = count_records st1"
  using upsert_replaces [of "example_record ''2025-0003'' ''Software Engineer'' 1"
      "example_record ''2025-0003'' ''Staff Engineer'' 2"
      "[example_record ''2025-0001'' ''Lead'' 0]"]
  by (simp add: valid_record_def example_record_def)

lemma sorted_key_recent_first:
  "sorted (map (\<lambda>r. (- int (ingested_at r), job_record.req_id r)) xs) \<Longrightarrow>
   sorted_wrt recent_first xs"
  by (induction xs) (auto simp: recent_first_def less_eq_prod_def)

text \<open>
  Claim C8. For every store, the search with the empty query returns every stored record
  (the same records, each as often as stored), so its length is the count of the store,
  and its result is ordered most recently ingested first, ties broken by \<open>req_id\<close>
  ascending.
\<close>

theorem search_empty_all:
  "mset (search [] st) = mset (all_records st) \<and>
   length (search [] st) = count_records st \<and>
   sorted_wrt recent_first (search [] st)"
  by (simp add: search_def trim_def count_records_def sorted_key_recent_first)

theorem search_empty_all_witness:
  "search []
     [example_record ''2025-0002'' ''Lead'' 5, example_record ''2025-0001'' ''Lead'' 5,
      example_record ''2025-0003'' ''Lead'' 9] =
     [example_record ''2025-0003'' ''Lead'' 9, example_record ''2025-0001'' ''Lead'' 5,
      example_record ''2025-0002'' ''Lead'' 5]"
  using search_empty_all
    [of "[example_record ''2025-0002'' ''Lead'' 5, example_record ''2025-0001'' ''Lead'' 5,
          example_record ''2025-0003'' ''Lead'' 9]"]
  by (simp add: search_def trim_def all_records_def example_record_def less_eq_prod_def
      less_prod_def list_le_def list_less_def)

section \<open>Properties of the front end\<close>

subsection \<open>Lines of the prompt\<close>

lemma split_on_line:
  "sep \<notin> set l \<Longrightarrow> split_on sep acc (l @ sep # rest) = (rev acc @ l) # split_on sep [] rest"
  by (induction l arbitrary: acc) auto

lemma split_on_last: "sep \<notin> set l \<Longrightarrow> split_on sep acc l = [rev acc @ l]"
  by (induction l arbitrary: acc) auto

lemma split_lines_line:
  "CHR ''\<newline>'' \<notin> set l \<Longrightarrow> split_lines (l @ ''\<newline>'' @ rest) = l # split_lines rest"
  by (simp add: split_lines_def split_on_line)

lemma split_lines_last: "CHR ''\<newline>'' \<notin> set l \<Longrightarrow> split_lines l = [l]"
  by (simp add: split_lines_def split_on_last)

lemma split_lines_unlines:
  "list_all (\<lambda>l. CHR ''\<newline>'' \<notin> set l) ls \<Longrightarrow>
   split_lines (unlines ls @ rest) = ls @ split_lines rest"
proof (induction ls)
  case Nil
  then show ?case by (simp add: unlines_def)
next
  case (Cons l ls)
  have u: "unlines (l # ls) @ rest = l @ ''\<newline>'' @ (unlines ls @ rest)"
    by (simp add: unlines_def)
  from Cons.prems have l: "CHR ''\<newline>'' \<notin> set l"
    and ls: "list_all (\<lambda>l. CHR ''\<newline>'' \<notin> set l) ls" by simp_all
  show ?case
    unfolding u split_lines_line [OF l] Cons.IH [OF ls] by simp
qed

lemma split_lines_join:
  "ls \<noteq> [] \<Longrightarrow> list_all (\<lambda>l. CHR ''\<newline>'' \<notin> set l) ls \<Longrightarrow>
   split_lines (join_lines ls) = ls"
proof (induction ls rule: join_lines.induct)
  case 1
  then show ?case by simp
next
  case (2 l)
  then show ?case by (simp add: split_lines_last)
next
  case (3 l k ks)
  then show ?case using split_lines_line [of l "join_lines (k # ks)"] by simp
qed

lemma history_single_lines: "list_all (\<lambda>l. CHR ''\<newline>'' \<notin> set l) employmentHistoryLines"
  by (simp add: employmentHistoryLines_def)

lemma requirements_single_lines: "list_all (\<lambda>l. CHR ''\<newline>'' \<notin> set l) resumeRequirementsLines"
  by (simp add: resumeRequirementsLines_def)

lemma static_text_lines:
  "split_lines (employmentHistory @ resumeRequirements) = employmentHistoryLines @ resumeRequirementsLines"
proof -
  have "resumeRequirementsLines \<noteq> []" by (simp add: resumeRequirementsLines_def)
  then have "split_lines resumeRequirements = resumeRequirementsLines"
    unfolding resumeRequirements_def using requirements_single_lines by (rule split_lines_join)
  then show ?thesis
    unfolding employmentHistory_def by (simp add: split_lines_unlines history_single_lines)
qed

lemma static_no_job_line:
  "list_all (\<lambda>l. \<not> is_job_line l) (employmentHistoryLines @ resumeRequirementsLines)"
  by (simp add: employmentHistoryLines_def resumeRequirementsLines_def is_job_line_def job_labels_def)

lemma generateLocalPrompt_parts:
  "generateLocalPrompt s =
     opening_sentence @ profile_block (profile s) @ jobInfo (selectedJob s) @ boilerplate"
  by (simp add: generateLocalPrompt_def opening_sentence_def profile_block_def unlines_def
      boilerplate_def)

lemma jobInfo_Some: "jobInfo (Some j) = target_job_block j"
  by (simp add: jobInfo_def target_job_block_def unlines_def)

lemma jobInfo_None: "jobInfo None = []"
  by (simp add: jobInfo_def)

lemma opening_lines:
  "split_lines (opening_sentence @ rest) =
     [''You are an expert resume writer and LaTeX document designer. Create a professional, ATS-optimized resume.'',
      ''''] @ split_lines rest"
proof -
  have eq: "opening_sentence =
    unlines [''You are an expert resume writer and LaTeX document designer. Create a professional, ATS-optimized resume.'', '''']"
    by (simp add: opening_sentence_def unlines_def)
  show ?thesis unfolding eq by (rule split_lines_unlines) simp
qed

lemma profile_block_lines:
  assumes "single_line_profile p"
  shows "split_lines (profile_block p @ rest) =
     [''CANDIDATE PROFILE:'',
      ''- Name: '' @ name p,
      ''- Location: '' @ profile.location p,
      ''- Email: '' @ email p,
      ''- Phone: '' @ phone p,
      ''- LinkedIn: '' @ linkedin p,
      ''- GitHub: '' @ (if github p = [] then ''N/A'' else github p)] @ split_lines rest"
  unfolding profile_block_def
  by (rule split_lines_unlines) (use assms in \<open>simp add: single_line_profile_def\<close>)

lemma prompt_lines:
  assumes "single_line_profile (profile s)"
  shows "split_lines (generateLocalPrompt s) =
     [''You are an expert resume writer and LaTeX document designer. Create a professional, ATS-optimized resume.'',
      '''',
      ''CANDIDATE PROFILE:'',
      ''- Name: '' @ name (profile s),
      ''- Location: '' @ profile.location (profile s),
      ''- Email: '' @ email (profile s),
      ''- Phone: '' @ phone (profile s),
      ''- LinkedIn: '' @ linkedin (profile s),
      ''- GitHub: '' @ (if github (profile s) = [] then ''N/A'' else github (profile s))] @
     split_lines (jobInfo (selectedJob s) @ boilerplate)"
  unfolding generateLocalPrompt_parts opening_lines profile_block_lines [OF assms] by simp

lemma no_job_tail_lines:
  "split_lines boilerplate = [''''] @ employmentHistoryLines @ resumeRequirementsLines"
  unfolding boilerplate_def
  using split_lines_line [of "[]" "employmentHistory @ resumeRequirements"]
  by (simp add: static_text_lines)

lemma example_profile_single_line: "single_line_profile example_profile"
  by (simp add: single_line_profile_def example_profile_def)

lemma example_state_fields:
  "profile example_state = example_profile" "selectedJob example_state = Some example_job"
  "profile no_job_state = example_profile" "selectedJob no_job_state = None"
  by (simp_all add: example_state_def no_job_state_def)

lemma example_job_lines:
  "split_lines (jobInfo (Some example_job) @ boilerplate) =
     ['''', ''TARGET JOB:'', ''- Title: Software Engineer Lead'', ''- Requisition ID: 2025-0001'',
      ''- Location: Austin, TX'', ''- Pay Range: null'', ''- Technologies: java,aws'',
      ''- Description: abc...''] @ split_lines boilerplate"
  unfolding jobInfo_Some target_job_block_def
  by (rule trans [OF _ split_lines_unlines]) (simp_all add: example_job_def substring_def)

lemma jobInfo_description:
  assumes "job.description j = JString d"
  shows "jobInfo (Some j) =
      (''\<newline>'' @ ''TARGET JOB:\<newline>'' @
      ''- Title: '' @ toString (job.title j) @ ''\<newline>'' @
      ''- Requisition ID: '' @ toString (job.req_id j) @ ''\<newline>'' @
      ''- Location: '' @ toString (job.location j) @ ''\<newline>'' @
      ''- Pay Range: '' @ toString (job.pay_range j) @ ''\<newline>'' @
      ''- Technologies: '' @ toString (job.tech_keywords j) @ ''\<newline>'') @
      ''- Description: '' @ take 500 d @ ''...'' @ ''\<newline>''"
  using assms by (simp add: jobInfo_def substring_def)

subsection \<open>The target job block and the profile block\<close>

text \<open>
  Claim C1, as stated, fails. It says that a description of 500 characters or fewer
  appears unchanged, with no ellipsis. For the example job, whose description is the
  three characters \<open>abc\<close>, the prompt has no line with the description as the rule of
  the specification gives it; its description line ends in three dots.
\<close>

theorem truncation_counterexample:
  "length ''abc'' \<le> 500 \<and>
   job.description example_job = JString ''abc'' \<and>
   ''- Description: '' @ truncate_spec ''abc'' \<notin> set (split_lines (generateLocalPrompt example_state)) \<and>
   ''- Description: abc...'' \<in> set (split_lines (generateLocalPrompt example_state))"
proof -
  have "single_line_profile (profile example_state)"
    by (simp add: example_state_fields example_profile_single_line)
  note l = prompt_lines [OF this]
  have a: "''- Description: abc'' \<notin> set (employmentHistoryLines @ resumeRequirementsLines)"
    by (simp add: employmentHistoryLines_def resumeRequirementsLines_def)
  have b: "''- Description: abc'' \<notin> set (split_lines (generateLocalPrompt example_state))"
    unfolding l example_state_fields example_job_lines no_job_tail_lines
    using a by (simp add: example_profile_def)
  have c: "''- Description: abc...'' \<in> set (split_lines (generateLocalPrompt example_state))"
    unfolding l example_state_fields example_job_lines by simp
  from b c show ?thesis by (simp add: truncate_spec_def example_job_def)
qed

text \<open>
  Claim C1, amended. For every selected job whose description is a string, the prompt
  holds, after the label \<open>- Description:\<close> and right before the line break that ends the
  target job block, the first 500 characters of the description if it is longer than
  500 characters and the whole description otherwise, in both cases followed by three
  dots.
\<close>

theorem description_ellipsis_always:
  assumes "selectedJob s = Some j" and "job.description j = JString d"
  shows "\<exists>before. generateLocalPrompt s =
           before @ ''- Description: '' @ (if 500 < length d then take 500 d else d) @ ''...'' @
           ''\<newline>'' @ boilerplate"
proof -
  define head where "head =
      ''\<newline>'' @ ''TARGET JOB:\<newline>'' @
      ''- Title: '' @ toString (job.title j) @ ''\<newline>'' @
      ''- Requisition ID: '' @ toString (job.req_id j) @ ''\<newline>'' @
      ''- Location: '' @ toString (job.location j) @ ''\<newline>'' @
      ''- Pay Range: '' @ toString (job.pay_range j) @ ''\<newline>'' @
      ''- Technologies: '' @ toString (job.tech_keywords j) @ ''\<newline>''"
  define shown where "shown = (if 500 < length d then take 500 d else d)"
  have t: "take 500 d = shown" by (simp add: shown_def)
  have "jobInfo (Some j) = head @ ''- Description: '' @ take 500 d @ ''...'' @ ''\<newline>''"
    unfolding head_def using jobInfo_description [OF assms(2)] by simp
  then have "generateLocalPrompt s =
      (opening_sentence @ profile_block (profile s) @ head) @
      ''- Description: '' @ shown @ ''...'' @ ''\<newline>'' @ boilerplate"
    unfolding generateLocalPrompt_parts assms(1) t by simp
  then show ?thesis
    unfolding shown_def by (rule exI [of _ "opening_sentence @ profile_block (profile s) @ head"])
qed

theorem description_ellipsis_always_witness:
  "\<exists>before. generateLocalPrompt example_state =
      before @ ''- Description: '' @ ''abc'' @ ''...'' @ ''\<newline>'' @ boilerplate"
proof -
  have 1: "selectedJob example_state = Some example_job" by (simp add: example_state_fields)
  have 2: "job.description example_job = JString ''abc''" by (simp add: example_job_def)
  have 3: "(if 500 < length ''abc'' then take 500 ''abc'' else ''abc'') = ''abc''" by simp
  show ?thesis using description_ellipsis_always [OF 1 2] unfolding 3 .
qed

text \<open>
  Claim C2, as stated, fails. It says that an empty profile field produces no line. In
  the example state the email is empty, and the prompt has the line \<open>- Email:\<close> with
  nothing after the label.
\<close>

theorem empty_field_counterexample:
  "email (profile example_state) = [] \<and>
   ''- Email: '' \<in> set (split_lines (generateLocalPrompt example_state))"
proof -
  have "single_line_profile (profile example_state)"
    by (simp add: example_state_fields example_profile_single_line)
  note l = prompt_lines [OF this]
  show ?thesis unfolding l by (simp add: example_state_fields example_profile_def)
qed

text \<open>
  Claim C2, amended. For every profile, the prompt holds the profile block right after
  the opening sentence: the header and one labelled line for each of the six fields,
  empty or not, with \<open>N/A\<close> in place of an empty GitHub field. When no field holds a
  line break, these are lines 3 to 9 of the prompt, in the order Name, Location, Email,
  Phone, LinkedIn, GitHub.
\<close>

theorem profile_block_six_lines:
  "(\<exists>rest. generateLocalPrompt s = opening_sentence @ profile_block (profile s) @ rest) \<and>
   (single_line_profile (profile s) \<longrightarrow>
      take 7 (drop 2 (split_lines (generateLocalPrompt s))) =
        [''CANDIDATE PROFILE:'',
         ''- Name: '' @ name (profile s),
         ''- Location: '' @ profile.location (profile s),
         ''- Email: '' @ email (profile s),
         ''- Phone: '' @ phone (profile s),
         ''- LinkedIn: '' @ linkedin (profile s),
         ''- GitHub: '' @ (if github (profile s) = [] then ''N/A'' else github (profile s))])"
proof -
  have 1: "\<exists>rest. generateLocalPrompt s = opening_sentence @ profile_block (profile s) @ rest"
    unfolding generateLocalPrompt_parts
    by (rule exI [of _ "jobInfo (selectedJob s) @ boilerplate"]) (rule refl)
  have 2: "take 7 (drop 2 (split_lines (generateLocalPrompt s))) =
        [''CANDIDATE PROFILE:'',
         ''- Name: '' @ name (profile s),
         ''- Location: '' @ profile.location (profile s),
         ''- Email: '' @ email (profile s),
         ''- Phone: '' @ phone (profile s),
         ''- LinkedIn: '' @ linkedin (profile s),
         ''- GitHub: '' @ (if github (profile s) = [] then ''N/A'' else github (profile s))]"
    if "single_line_profile (profile s)"
    unfolding prompt_lines [OF that] by simp
  from 1 2 show ?thesis by blast
qed

theorem profile_block_six_lines_witness:
  "single_line_profile (profile example_state) \<and>
   take 7 (drop 2 (split_lines (generateLocalPrompt example_state))) =
     [''CANDIDATE PROFILE:'',
      ''- Name: Scott D. Weeden'',
      ''- Location: Portland, OR'',
      ''- Email: '',
      ''- Phone: (555) 123-4567'',
      ''- LinkedIn: linkedin.com/in/scottweeden'',
      ''- GitHub: N/A'']"
proof -
  have h: "single_line_profile (profile example_state)"
    by (simp add: example_state_fields example_profile_single_line)
  have "take 7 (drop 2 (split_lines (generateLocalPrompt example_state))) =
        [''CANDIDATE PROFILE:'',
         ''- Name: '' @ name (profile example_state),
         ''- Location: '' @ profile.location (profile example_state),
         ''- Email: '' @ email (profile example_state),
         ''- Phone: '' @ phone (profile example_state),
         ''- LinkedIn: '' @ linkedin (profile example_state),
         ''- GitHub: '' @ (if github (profile example_state) = [] then ''N/A''
            else github (profile example_state))]"
    using profile_block_six_lines [of example_state] h by blast
  then show ?thesis using h by (simp add: example_state_fields example_profile_def)
qed

text \<open>
  Claim C4. For every profile, when no job is selected, \<open>jobInfo\<close> is the empty string and
  the prompt is the opening sentence, the profile block and the fixed text, with nothing
  between the last two. When no profile field holds a line break, no line of the prompt
  starts with the header or a label of the target job block.
\<close>

theorem no_job_no_block:
  assumes "selectedJob s = None"
  shows "jobInfo (selectedJob s) = [] \<and>
     generateLocalPrompt s = opening_sentence @ profile_block (profile s) @ boilerplate \<and>
     (single_line_profile (profile s) \<longrightarrow>
        list_all (\<lambda>l. \<not> is_job_line l) (split_lines (generateLocalPrompt s)))"
proof -
  have 1: "jobInfo (selectedJob s) = []" using assms by (simp add: jobInfo_None)
  have 2: "generateLocalPrompt s = opening_sentence @ profile_block (profile s) @ boilerplate"
    unfolding generateLocalPrompt_parts 1 by simp
  have "\<not> is_job_line []" "\<not> is_job_line ''CANDIDATE PROFILE:''"
    "\<not> is_job_line ''You are an expert resume writer and LaTeX document designer. Create a professional, ATS-optimized resume.''"
    by (simp_all add: is_job_line_def job_labels_def)
  then have 3: "list_all (\<lambda>l. \<not> is_job_line l) (split_lines (generateLocalPrompt s))"
    if "single_line_profile (profile s)"
    unfolding prompt_lines [OF that] 1 append_Nil no_job_tail_lines
    using static_no_job_line by (simp add: is_job_line_def job_labels_def)
  from 1 2 3 show ?thesis by blast
qed

theorem no_job_no_block_witness:
  "selectedJob no_job_state = None \<and> single_line_profile (profile no_job_state) \<and>
   list_all (\<lambda>l. \<not> is_job_line l) (split_lines (generateLocalPrompt no_job_state))"
proof -
  have 1: "selectedJob no_job_state = None" by (simp add: example_state_fields)
  have 2: "single_line_profile (profile no_job_state)"
    by (simp add: example_state_fields example_profile_single_line)
  show ?thesis using no_job_no_block [OF 1] 1 2 by blast
qed





subsection \<open>The command line\<close>





lemma length_escape: "length p \<le> length (escape p)"
proof (induction p)
  case Nil
  then show ?case by (simp add: escape_def)
next
  case (Cons x xs)
  have "1 \<le> length (escape_char x)" by (simp add: escape_char_def)
  with Cons show ?case by (simp add: escape_def)
qed






subsection \<open>A rejected request\<close>

lemma local_prompt_not_empty: "generateLocalPrompt s \<noteq> []"
  by (simp add: generateLocalPrompt_def)

lemma local_prompt_has_history: "sublist employmentHistory (generateLocalPrompt s)"
proof -
  have "generateLocalPrompt s =
      (opening_sentence @ profile_block (profile s) @ jobInfo (selectedJob s) @ ''\<newline>'') @
      employmentHistory @ resumeRequirements"
    unfolding generateLocalPrompt_parts boilerplate_def by simp
  then show ?thesis by (simp only: sublist_appendI)
qed

text \<open>
  Claim C10. Whenever the request to the back end is rejected, for whatever error,
  \<open>generatePrompt\<close> sets the prompt to the locally assembled one, which holds the fixed
  employment history and is not empty, and shows the prompt section. Apart from the
  console, the resulting state does not depend on the error: the page shows nothing of
  it.
\<close>

theorem failure_shows_local_prompt:
  assumes "post (request_body s) = Inl e"
  shows "generatedPrompt (generatePrompt post s) = generateLocalPrompt s \<and>
     sublist employmentHistory (generatedPrompt (generatePrompt post s)) \<and>
     generatedPrompt (generatePrompt post s) \<noteq> [] \<and>
     showPromptSection (generatePrompt post s) \<and>
     (generatePrompt post s)\<lparr>console := []\<rparr> =
       s\<lparr>generatedPrompt := generateLocalPrompt s, showPromptSection := True, console := []\<rparr>"
  using assms
  by (simp add: generatePrompt_def local_prompt_not_empty local_prompt_has_history)

theorem failure_shows_local_prompt_witness:
  "generatedPrompt (generatePrompt not_found_backend example_state) =
     generateLocalPrompt example_state \<and>
   sublist employmentHistory (generatedPrompt (generatePrompt not_found_backend example_state)) \<and>
   generatedPrompt (generatePrompt not_found_backend example_state) \<noteq> [] \<and>
   showPromptSection (generatePrompt not_found_backend example_state)"
proof -
  have h: "not_found_backend (request_body example_state) = Inl (HttpStatus 404)"
    by (simp add: not_found_backend_def)
  show ?thesis
    using failure_shows_local_prompt [of not_found_backend example_state "HttpStatus 404", OF h]
    by blast
qed

section \<open>Properties of the query service\<close>

lemma get_unknown:
  "rid \<notin> job_record.req_id ` set st \<Longrightarrow> get rid st = Inl NotFound"
proof -
  assume "rid \<notin> job_record.req_id ` set st"
  then have "find (\<lambda>x. job_record.req_id x = rid) st = None"
    by (auto simp: find_None_iff)
  then show ?thesis by (simp add: get_def)
qed

lemma get_known:
  "get rid st = Inr r \<Longrightarrow> r \<in> set st \<and> job_record.req_id r = rid"
  by (auto simp: get_def find_Some_iff split: option.splits)

lemma service_known:
  "getJob rid st = Inr r \<Longrightarrow>
   generatePrompt_service assemble st (Some rid) p = Inr (assemble p (Some r))"
  by (simp add: generatePrompt_service_def)

lemma service_no_job:
  "generatePrompt_service assemble st None p = Inr (assemble p None)"
  by (simp add: generatePrompt_service_def)

lemma get_present:
  "rid \<in> job_record.req_id ` set st \<Longrightarrow>
   \<exists>r. r \<in> set st \<and> job_record.req_id r = rid \<and> get rid st = Inr r"
proof (induction st)
  case Nil
  then show ?case by simp
next
  case (Cons x xs)
  show ?case
  proof (cases "job_record.req_id x = rid")
    case True
    then have "get rid (x # xs) = Inr x" by (simp add: get_def)
    with True show ?thesis by auto
  next
    case False
    with Cons.prems have "rid \<in> job_record.req_id ` set xs" by auto
    from Cons.IH [OF this] obtain r
      where "r \<in> set xs" "job_record.req_id r = rid" "get rid xs = Inr r" by blast
    with False show ?thesis by (auto simp: get_def)
  qed
qed

text \<open>
  Claim C3. For every \<open>req_id\<close> that no record of the store carries, every profile and
  every assembler, \<open>generatePrompt\<close> of the query service fails with the typed error
  \<open>NotFound\<close>, and its result is no prompt: the assembler's output is not returned, in
  whole or in part. The failure is kept for unknown ids: for a \<open>req_id\<close> that a record
  of the store carries, the result is the prompt assembled from such a record.
\<close>

theorem unknown_job_not_found:
  "(rid \<notin> job_record.req_id ` set (all_records st) \<longrightarrow>
      generatePrompt_service assemble st (Some rid) p = Inl NotFound \<and>
      (\<forall>prompt. generatePrompt_service assemble st (Some rid) p \<noteq> Inr prompt)) \<and>
   (rid \<in> job_record.req_id ` set (all_records st) \<longrightarrow>
      (\<exists>r. r \<in> set (all_records st) \<and> job_record.req_id r = rid \<and>
           generatePrompt_service assemble st (Some rid) p = Inr (assemble p (Some r))))"
proof -
  have 1: "generatePrompt_service assemble st (Some rid) p = Inl NotFound"
    if "rid \<notin> job_record.req_id ` set (all_records st)"
  proof -
    have "getJob rid st = Inl NotFound"
      using that by (simp add: getJob_def all_records_def get_unknown)
    then show ?thesis by (simp add: generatePrompt_service_def)
  qed
  have 2: "\<exists>r. r \<in> set (all_records st) \<and> job_record.req_id r = rid \<and>
           generatePrompt_service assemble st (Some rid) p = Inr (assemble p (Some r))"
    if "rid \<in> job_record.req_id ` set (all_records st)"
  proof -
    from that obtain r where "r \<in> set st" "job_record.req_id r = rid" "get rid st = Inr r"
      using get_present [of rid st] by (auto simp: all_records_def)
    then show ?thesis
      by (auto simp: all_records_def generatePrompt_service_def getJob_def)
  qed
  from 1 2 show ?thesis by simp
qed

theorem unknown_job_not_found_witness:
  "''2025-9999'' \<notin> job_record.req_id ` set (all_records [example_record ''2025-0001'' ''Lead'' 0]) \<and>
   generatePrompt_service example_assemble [example_record ''2025-0001'' ''Lead'' 0]
     (Some ''2025-9999'') example_profile = Inl NotFound \<and>
   ''2025-0001'' \<in> job_record.req_id ` set (all_records [example_record ''2025-0001'' ''Lead'' 0]) \<and>
   generatePrompt_service example_assemble [example_record ''2025-0001'' ''Lead'' 0]
     (Some ''2025-0001'') example_profile = Inr ''Name: Scott D. Weeden Title: Lead''"
proof -
  have h: "''2025-9999'' \<notin> job_record.req_id ` set (all_records [example_record ''2025-0001'' ''Lead'' 0])"
    by (simp add: all_records_def example_record_def)
  have k: "''2025-0001'' \<in> job_record.req_id ` set (all_records [example_record ''2025-0001'' ''Lead'' 0])"
    by (simp add: all_records_def example_record_def)
  have a: "generatePrompt_service example_assemble [example_record ''2025-0001'' ''Lead'' 0]
     (Some ''2025-9999'') example_profile = Inl NotFound"
    using unknown_job_not_found [of "''2025-9999''" "[example_record ''2025-0001'' ''Lead'' 0]"
        example_assemble example_profile] h by blast
  have "\<exists>r. r \<in> set (all_records [example_record ''2025-0001'' ''Lead'' 0]) \<and>
      job_record.req_id r = ''2025-0001'' \<and>
      generatePrompt_service example_assemble [example_record ''2025-0001'' ''Lead'' 0]
        (Some ''2025-0001'') example_profile = Inr (example_assemble example_profile (Some r))"
    using unknown_job_not_found [of "''2025-0001''" "[example_record ''2025-0001'' ''Lead'' 0]"
        example_assemble example_profile] k by blast
  then have b: "generatePrompt_service example_assemble [example_record ''2025-0001'' ''Lead'' 0]
     (Some ''2025-0001'') example_profile = Inr ''Name: Scott D. Weeden Title: Lead''"
    by (auto simp: all_records_def example_assemble_def example_profile_def example_record_def)
  from h k a b show ?thesis by blast
qed

end
